theory Spec2Isabelle
  imports Complex_Main "HOL-Library.AList"
begin

section \<open>Python values used by the monitor\<close>

text \<open>
  A Python float is a finite value, an infinity or NaN. Only the order of floats matters
  to the monitor, so a finite float is carried as the real number it denotes.
  \<open>float_lt\<close> is Python's \<open><\<close> and \<open>float_ge\<close> is Python's \<open>>=\<close>: every comparison
  with NaN is false.
\<close>

datatype pyfloat = Finite real | PosInf | NegInf | NaN

fun float_lt :: "pyfloat \<Rightarrow> pyfloat \<Rightarrow> bool" where
  "float_lt NaN y = False"
| "float_lt x NaN = False"
| "float_lt (Finite a) (Finite b) = (a < b)"
| "float_lt (Finite a) PosInf = True"
| "float_lt (Finite a) NegInf = False"
| "float_lt PosInf y = False"
| "float_lt NegInf NegInf = False"
| "float_lt NegInf y = True"

fun float_ge :: "pyfloat \<Rightarrow> pyfloat \<Rightarrow> bool" where
  "float_ge NaN y = False"
| "float_ge x NaN = False"
| "float_ge (Finite a) (Finite b) = (b \<le> a)"
| "float_ge (Finite a) PosInf = False"
| "float_ge (Finite a) NegInf = True"
| "float_ge PosInf y = True"
| "float_ge NegInf NegInf = True"
| "float_ge NegInf y = False"

text \<open>The threshold the specification asks for: a finite, strictly positive number.\<close>

fun finite_positive :: "pyfloat \<Rightarrow> bool" where
  "finite_positive (Finite a) = (0 < a)"
| "finite_positive x = False"

text \<open>
  A text is the list of its code points, each below 256; a text with a code point beyond
  that cannot be written in this model. \<open>str.strip()\<close> removes the leading and trailing
  characters for which \<open>str.isspace()\<close> holds: below 256 these are the code points 9 to 13,
  28 to 32, 133 (U+0085) and 160 (U+00A0).
\<close>

definition py_isspace :: "char \<Rightarrow> bool" where
  "py_isspace c =
     (let n = (of_char c :: nat)
      in (9 \<le> n \<and> n \<le> 13) \<or> (28 \<le> n \<and> n \<le> 32) \<or> n = 133 \<or> n = 160)"

definition strip :: "string \<Rightarrow> string" where
  "strip s = rev (dropWhile py_isspace (rev (dropWhile py_isspace s)))"

section \<open>Data model\<close>

text \<open>
  \<open>user_data\<close> is a dict from the chat id, as a string, to a dict with the keys
  \<open>'threshold'\<close> and \<open>'address'\<close>. A Python dict keeps insertion order, which is the order
  of the sweep, so the dict is an association list with distinct keys: \<open>map_of\<close> is the
  lookup, \<open>AList.update\<close> is \<open>d[k] = v\<close> (in place for a present key, appended for a new one),
  \<open>AList.map_entry\<close> is a store into the inner dict, \<open>AList.delete\<close> is \<open>del d[k]\<close>.
\<close>

record subscription =
  threshold :: pyfloat
  address :: string

type_synonym registry = "(string \<times> subscription) list"

text \<open>
  The values \<open>json.loads\<close> can return and \<open>json.dump\<close> can write. \<open>dict_of\<close> is the dict
  of subscriptions as such a value: each inner dict has the key \<open>'threshold'\<close> first and the
  key \<open>'address'\<close> second, the order in which \<open>monitor\<close> creates them.
\<close>

datatype json =
    JNull
  | JBool bool
  | JInt int
  | JFloat pyfloat
  | JStr string
  | JList "json list"
  | JDict "(string \<times> json) list"

definition dict_of :: "registry \<Rightarrow> json" where
  "dict_of d =
     JDict (map (\<lambda>(k, s). (k, JDict [(''threshold'', JFloat (threshold s)),
                                      (''address'', JStr (address s))])) d)"

text \<open>The exceptions that the calls of the program raise.\<close>

datatype exn =
    ValueError
  | OSError
  | FileNotFoundError
  | UnicodeDecodeError
  | JSONDecodeError
  | RecursionError
  | TelegramError

text \<open>
  The library functions the program calls are parameters of the model:
  \<open>py_float\<close> is \<open>float(s)\<close> (\<open>None\<close> is ValueError), \<open>py_str\<close> and \<open>py_int\<close> are \<open>str\<close> and
  \<open>int\<close> on chat ids, \<open>is_address\<close> is \<open>w3.is_address\<close>, \<open>json_dumps\<close> is the text written
  by \<open>json.dump\<close>, \<open>json_loads\<close> is \<open>json.loads\<close>, which returns the value of any JSON
  text or raises (JSONDecodeError for a text that is not JSON, RecursionError for one
  nested too deeply), and \<open>div_1e18\<close> is the float division \<open>n / 1e18\<close>.
\<close>

record env =
  py_float :: "string \<Rightarrow> pyfloat option"
  py_str :: "int \<Rightarrow> string"
  py_int :: "string \<Rightarrow> int option"
  is_address :: "string \<Rightarrow> bool"
  json_dumps :: "json \<Rightarrow> string"
  json_loads :: "string \<Rightarrow> exn + json"
  div_1e18 :: "nat \<Rightarrow> pyfloat"

text \<open>
  What the outside world answers, by call number: the \<open>k\<close>-th contract call
  \<open>getUserAccountData(address).call()\<close> returns a tuple of integers or raises (\<open>None\<close>),
  the \<open>k\<close>-th message handed to Telegram is delivered or raises, and the \<open>k\<close>-th
  opening of the data file for writing succeeds, fails, or is cut after some characters.
\<close>

datatype disk_fault = DiskOk | OpenFails | WriteFails nat

record outside =
  rpc_call :: "nat \<Rightarrow> string \<Rightarrow> nat list option"
  deliver :: "nat \<Rightarrow> bool"
  disk :: "nat \<Rightarrow> disk_fault"

text \<open>The texts the bot sends, with the values their f-strings interpolate.\<close>

datatype text_msg =
    Usage
  | InvalidThreshold
  | InvalidAddress
  | Updated string pyfloat
  | Started string pyfloat
  | Monitoring string pyfloat pyfloat
  | MonitoringNoFactor string pyfloat
  | NotMonitoring
  | Stopped
  | WasNotMonitoring
  | Alert string pyfloat pyfloat
  | Unable string

datatype outcome = Done | Raised exn

text \<open>
  What is found at the path \<open>USER_DATA_FILE\<close>: nothing, something that cannot be opened
  for reading (a directory, a file without read permission), a file whose bytes do not
  decode in the locale's encoding, or a file holding a text.
\<close>

datatype stored = Missing | Unreadable | Undecodable | Text string

text \<open>
  The global state: the dict \<open>user_data\<close>, what is stored at \<open>USER_DATA_FILE\<close>, every
  message handed to Telegram so far (recipient, text, whether it was delivered), the
  addresses of the contract calls made so far, and the number of times the data file was
  opened for writing. The handlers are modelled on a \<open>user_data\<close> that is a dict of
  subscriptions, which is what they store themselves; \<open>load_user_data\<close> returns whatever
  value the file holds.
\<close>

record world =
  user_data :: registry
  data_file :: stored
  sent :: "(int \<times> text_msg \<times> bool) list"
  queried :: "string list"
  writes :: nat

record tg_update =
  chat :: int
  args :: "string list"

section \<open>The program\<close>

text \<open>Sequencing of two awaited steps: an exception of the first skips the second.\<close>

definition seq :: "outcome \<times> world \<Rightarrow> (world \<Rightarrow> outcome \<times> world) \<Rightarrow> outcome \<times> world" where
  "seq r f = (case r of (Done, w) \<Rightarrow> f w | (Raised x, w) \<Rightarrow> (Raised x, w))"

text \<open>
  \<open>with open(USER_DATA_FILE, 'r') as f: content = f.read().strip()\<close>: opening raises
  FileNotFoundError or another OSError, reading raises UnicodeDecodeError.
\<close>

definition read_stripped :: "stored \<Rightarrow> exn + string" where
  "read_stripped f =
     (case f of
        Missing \<Rightarrow> Inl FileNotFoundError
      | Unreadable \<Rightarrow> Inl OSError
      | Undecodable \<Rightarrow> Inl UnicodeDecodeError
      | Text raw \<Rightarrow> Inr (strip raw))"

text \<open>
  The body of the \<open>try\<close>, then the clause
  \<open>except (FileNotFoundError, json.JSONDecodeError): return {}\<close>; every other exception
  leaves the function. Line 104 calls it while the module is loaded.
\<close>

definition load_user_data :: "env \<Rightarrow> stored \<Rightarrow> exn + json" where
  "load_user_data e f =
     (case (case read_stripped f of
              Inl x \<Rightarrow> Inl x
            | Inr content \<Rightarrow> if content \<noteq> [] then json_loads e content else Inr (JDict [])) of
        Inl x \<Rightarrow> if x = FileNotFoundError \<or> x = JSONDecodeError then Inr (JDict []) else Inl x
      | Inr v \<Rightarrow> Inr v)"

text \<open>
  \<open>open(USER_DATA_FILE, 'w')\<close> creates the file or truncates it at once; \<open>json.dump\<close> then
  writes the text into that same file.
\<close>

definition save_user_data :: "env \<Rightarrow> outside \<Rightarrow> json \<Rightarrow> world \<Rightarrow> outcome \<times> world" where
  "save_user_data e orc data w =
     (let w1 = w\<lparr>writes := Suc (writes w)\<rparr> in
      case disk orc (writes w) of
        OpenFails \<Rightarrow> (Raised OSError, w1)
      | WriteFails n \<Rightarrow> (Raised OSError, w1\<lparr>data_file := Text (take n (json_dumps e data))\<rparr>)
      | DiskOk \<Rightarrow> (Done, w1\<lparr>data_file := Text (json_dumps e data)\<rparr>))"

definition check_health_factor :: "env \<Rightarrow> outside \<Rightarrow> string \<Rightarrow> world \<Rightarrow> pyfloat option \<times> world" where
  "check_health_factor e orc addr w =
     (let w1 = w\<lparr>queried := queried w @ [addr]\<rparr> in
      case rpc_call orc (length (queried w)) addr of
        None \<Rightarrow> (None, w1)
      | Some account_data \<Rightarrow>
          if 5 < length account_data then (Some (div_1e18 e (account_data ! 5)), w1)
          else (None, w1))"

definition send :: "outside \<Rightarrow> int \<Rightarrow> text_msg \<Rightarrow> world \<Rightarrow> outcome \<times> world" where
  "send orc target t w =
     (let ok = deliver orc (length (sent w));
          w1 = w\<lparr>sent := sent w @ [(target, t, ok)]\<rparr>
      in if ok then (Done, w1) else (Raised TelegramError, w1))"

definition reply_text :: "outside \<Rightarrow> tg_update \<Rightarrow> text_msg \<Rightarrow> world \<Rightarrow> outcome \<times> world" where
  "reply_text orc u t w = send orc (chat u) t w"

text \<open>\<open>context.bot.send_message(chat_id=int(chat_id), text=...)\<close>.\<close>

definition send_message :: "env \<Rightarrow> outside \<Rightarrow> string \<Rightarrow> text_msg \<Rightarrow> world \<Rightarrow> outcome \<times> world" where
  "send_message e orc chat_id t w =
     (case py_int e chat_id of
        None \<Rightarrow> (Raised ValueError, w)
      | Some n \<Rightarrow> send orc n t w)"

definition check_and_notify :: "env \<Rightarrow> outside \<Rightarrow> string \<Rightarrow> world \<Rightarrow> outcome \<times> world" where
  "check_and_notify e orc chat_id w =
     (case map_of (user_data w) chat_id of
        None \<Rightarrow> (Done, w)
      | Some sub \<Rightarrow>
          (case check_health_factor e orc (address sub) w of
             (Some health_factor, w1) \<Rightarrow>
               if float_lt health_factor (threshold sub)
               then send_message e orc chat_id (Alert (address sub) health_factor (threshold sub)) w1
               else (Done, w1)
           | (None, w1) \<Rightarrow> send_message e orc chat_id (Unable (address sub)) w1))"

definition monitor :: "env \<Rightarrow> outside \<Rightarrow> tg_update \<Rightarrow> world \<Rightarrow> outcome \<times> world" where
  "monitor e orc u w =
     (if length (args u) \<noteq> 2 then reply_text orc u Usage w
      else
        let chat_id = py_str e (chat u) in
        case py_float e (args u ! 0) of
          None \<Rightarrow> reply_text orc u InvalidThreshold w
        | Some thr \<Rightarrow>
            let addr = args u ! 1 in
            if \<not> is_address e addr then reply_text orc u InvalidAddress w
            else
              let (message, data) =
                    (case map_of (user_data w) chat_id of
                       Some old \<Rightarrow>
                         (Updated addr thr,
                          AList.map_entry chat_id (\<lambda>s. s\<lparr>address := addr\<rparr>)
                            (AList.map_entry chat_id (\<lambda>s. s\<lparr>threshold := thr\<rparr>) (user_data w)))
                     | None \<Rightarrow>
                         (Started addr thr,
                          AList.update chat_id \<lparr>threshold = thr, address = addr\<rparr> (user_data w)));
                  w1 = w\<lparr>user_data := data\<rparr>
              in seq (save_user_data e orc (dict_of data) w1)
                   (\<lambda>w2. seq (reply_text orc u message w2) (check_and_notify e orc chat_id)))"

definition check :: "env \<Rightarrow> outside \<Rightarrow> tg_update \<Rightarrow> world \<Rightarrow> outcome \<times> world" where
  "check e orc u w =
     (let chat_id = py_str e (chat u) in
      case map_of (user_data w) chat_id of
        Some sub \<Rightarrow>
          (case check_health_factor e orc (address sub) w of
             (Some health_factor, w1) \<Rightarrow>
               reply_text orc u (Monitoring (address sub) (threshold sub) health_factor) w1
           | (None, w1) \<Rightarrow>
               reply_text orc u (MonitoringNoFactor (address sub) (threshold sub)) w1)
      | None \<Rightarrow> reply_text orc u NotMonitoring w)"

definition stop :: "env \<Rightarrow> outside \<Rightarrow> tg_update \<Rightarrow> world \<Rightarrow> outcome \<times> world" where
  "stop e orc u w =
     (let chat_id = py_str e (chat u) in
      case map_of (user_data w) chat_id of
        Some sub \<Rightarrow>
          (let data = AList.delete chat_id (user_data w);
               w1 = w\<lparr>user_data := data\<rparr>
           in seq (save_user_data e orc (dict_of data) w1) (reply_text orc u Stopped))
      | None \<Rightarrow> reply_text orc u WasNotMonitoring w)"

text \<open>
  \<open>for chat_id in user_data: await check_and_notify(context, chat_id)\<close>: the keys in
  insertion order; an exception leaves the loop.
\<close>

fun check_each :: "env \<Rightarrow> outside \<Rightarrow> string list \<Rightarrow> world \<Rightarrow> outcome \<times> world" where
  "check_each e orc [] w = (Done, w)"
| "check_each e orc (chat_id # rest) w =
     seq (check_and_notify e orc chat_id w) (check_each e orc rest)"

definition periodic_check :: "env \<Rightarrow> outside \<Rightarrow> world \<Rightarrow> outcome \<times> world" where
  "periodic_check e orc w = check_each e orc (map fst (user_data w)) w"

section \<open>Names for parts of the program\<close>

text \<open>
  The dict that \<open>monitor\<close> builds for a valid command, and the confirmation it phrases:
  the two branches of \<open>if chat_id in user_data\<close>.
\<close>

definition upserted :: "string \<Rightarrow> pyfloat \<Rightarrow> string \<Rightarrow> registry \<Rightarrow> registry" where
  "upserted k t a d =
     (case map_of d k of
        Some old \<Rightarrow> AList.map_entry k (\<lambda>s. s\<lparr>address := a\<rparr>) (AList.map_entry k (\<lambda>s. s\<lparr>threshold := t\<rparr>) d)
      | None \<Rightarrow> AList.update k \<lparr>threshold = t, address = a\<rparr> d)"

definition confirmation :: "string \<Rightarrow> pyfloat \<Rightarrow> string \<Rightarrow> registry \<Rightarrow> text_msg" where
  "confirmation k t a d = (case map_of d k of Some old \<Rightarrow> Updated a t | None \<Rightarrow> Started a t)"

text \<open>The thresholds stored in a registry.\<close>

definition thresholds :: "registry \<Rightarrow> pyfloat set" where
  "thresholds d = set (map (\<lambda>(k, s). threshold s) d)"

text \<open>
  What the program needs from the \<open>json\<close> library for a value \<open>v\<close>: \<open>json.loads\<close> reads
  back what \<open>json.dump\<close> wrote, and the text written is not empty and neither starts nor
  ends with a whitespace character.
\<close>

definition json_contract :: "env \<Rightarrow> json \<Rightarrow> bool" where
  "json_contract e v =
     (json_loads e (json_dumps e v) = Inr v
      \<and> json_dumps e v \<noteq> []
      \<and> \<not> py_isspace (hd (json_dumps e v))
      \<and> \<not> py_isspace (last (json_dumps e v)))"

text \<open>
  Loading the stored state and saving it again, \<open>save_user_data(load_user_data())\<close>; when
  the load raises, nothing is saved.
\<close>

definition resave :: "env \<Rightarrow> outside \<Rightarrow> world \<Rightarrow> world" where
  "resave e orc w =
     (case load_user_data e (data_file w) of
        Inl x \<Rightarrow> w
      | Inr v \<Rightarrow> snd (save_user_data e orc v w))"

section \<open>A concrete environment\<close>

text \<open>
  An environment that agrees with CPython, \<open>json\<close> and \<open>web3\<close> on the arguments listed in
  it, used to run the program on concrete inputs: two addresses, the chat ids 42 and 7,
  the thresholds 1.5, 2 and -1, and the JSON texts of the registries built from them. The
  runs below call it on these arguments only, on the string \<open>abc\<close>, which \<open>float()\<close>
  rejects, on a lone opening brace, which \<open>json.loads\<close> rejects, and on the text of the
  empty list. The health factors used are 1.25e18 and 1.5e18, whose quotient by 1e18 is
  exact.
\<close>

definition addr_a :: string where
  "addr_a = ''0x87870Bca3F3fD6335C3F4ce8392D69350B4fA4E2''"

definition addr_b :: string where
  "addr_b = ''0x7Fc66500c84A76Ad7e9c93437bFc5Ac33E2DDaE9''"

definition sub_a :: subscription where
  "sub_a = \<lparr>threshold = Finite (3 / 2), address = addr_a\<rparr>"

definition sub_b :: subscription where
  "sub_b = \<lparr>threshold = Finite 2, address = addr_b\<rparr>"

definition text_a :: string where
  \<open>text_a = ''{"42": {"threshold": 1.5, "address": "0x87870Bca3F3fD6335C3F4ce8392D69350B4fA4E2"}}''\<close>

definition text_ab :: string where
  \<open>text_ab = ''{"42": {"threshold": 1.5, "address": "0x87870Bca3F3fD6335C3F4ce8392D69350B4fA4E2"}, "7": {"threshold": 2.0, "address": "0x7Fc66500c84A76Ad7e9c93437bFc5Ac33E2DDaE9"}}''\<close>

definition text_b :: string where
  \<open>text_b = ''{"42": {"threshold": 2.0, "address": "0x7Fc66500c84A76Ad7e9c93437bFc5Ac33E2DDaE9"}}''\<close>

definition text_neg :: string where
  \<open>text_neg = ''{"42": {"threshold": -1.0, "address": "0x87870Bca3F3fD6335C3F4ce8392D69350B4fA4E2"}}''\<close>

definition cpython :: env where
  "cpython =
     \<lparr>py_float = (\<lambda>s. if s = ''1.5'' then Some (Finite (3 / 2))
                      else if s = ''2'' then Some (Finite 2)
                      else if s = ''-1'' then Some (Finite (- 1))
                      else None),
      py_str = (\<lambda>n. if n = 42 then ''42'' else if n = 7 then ''7'' else ''0''),
      py_int = (\<lambda>s. if s = ''42'' then Some 42 else if s = ''7'' then Some 7
                    else if s = ''0'' then Some 0 else None),
      is_address = (\<lambda>s. s = addr_a \<or> s = addr_b),
      json_dumps = (\<lambda>v. if v = dict_of [(''42'', sub_a)] then text_a
                        else if v = dict_of [(''42'', sub_a), (''7'', sub_b)] then text_ab
                        else if v = dict_of [(''42'', sub_b)] then text_b
                        else if v = dict_of [(''42'', \<lparr>threshold = Finite (- 1), address = addr_a\<rparr>)]
                          then text_neg
                        else if v = JList [] then ''[]''
                        else ''{}''),
      json_loads = (\<lambda>s. if s = text_a then Inr (dict_of [(''42'', sub_a)])
                        else if s = text_ab then Inr (dict_of [(''42'', sub_a), (''7'', sub_b)])
                        else if s = text_b then Inr (dict_of [(''42'', sub_b)])
                        else if s = text_neg
                          then Inr (dict_of [(''42'', \<lparr>threshold = Finite (- 1), address = addr_a\<rparr>)])
                        else if s = ''{}'' then Inr (JDict [])
                        else if s = ''[]'' then Inr (JList [])
                        else Inl JSONDecodeError),
      div_1e18 = (\<lambda>n. Finite (real n / 10 ^ 18))\<rparr>"

definition answers :: "nat list option \<Rightarrow> bool \<Rightarrow> disk_fault \<Rightarrow> outside" where
  "answers r ok d = \<lparr>rpc_call = (\<lambda>k a. r), deliver = (\<lambda>k. ok), disk = (\<lambda>k. d)\<rparr>"

definition account :: "nat \<Rightarrow> nat list" where
  "account hf = [0, 0, 0, 0, 0, hf]"

definition world_of :: "registry \<Rightarrow> stored \<Rightarrow> world" where
  "world_of d f = \<lparr>user_data = d, data_file = f, sent = [], queried = [], writes = 0\<rparr>"

section \<open>Alert decision\<close>

lemma float_ge_not_lt: "float_ge x y \<Longrightarrow> \<not> float_lt x y"
  by (cases x; cases y) auto

text \<open>
  Claim C1. When \<open>check_and_notify\<close> runs for a stored subscription, a reading strictly
  below the threshold makes it send the alert carrying that reading, a reading greater
  than or equal to the threshold (equal included) makes it send nothing, and an
  unavailable reading makes it send the source-unavailable notice; this holds in every
  state, whatever was sent before.
\<close>

theorem check_and_notify_decision:
  assumes "map_of (user_data w) chat_id = Some sub"
    and "py_int e chat_id = Some n"
    and "check_health_factor e orc (address sub) w = (reading, w1)"
  shows "(\<forall>h. reading = Some h \<and> float_lt h (threshold sub) \<longrightarrow>
            sent (snd (check_and_notify e orc chat_id w)) =
              sent w @ [(n, Alert (address sub) h (threshold sub), deliver orc (length (sent w)))])
       \<and> (\<forall>h. reading = Some h \<and> float_ge h (threshold sub) \<longrightarrow>
            sent (snd (check_and_notify e orc chat_id w)) = sent w)
       \<and> (reading = None \<longrightarrow>
            sent (snd (check_and_notify e orc chat_id w)) =
              sent w @ [(n, Unable (address sub), deliver orc (length (sent w)))])"
proof -
  have s: "sent w1 = sent w"
    using assms(3) by (auto simp: check_health_factor_def Let_def split: option.splits if_splits)
  show ?thesis
    using assms s
    by (auto simp: check_and_notify_def send_message_def send_def Let_def
        dest: float_ge_not_lt)
qed

text \<open>The three cases on chat 42 with threshold 1.5: readings 1.25, 1.5 and none.\<close>

theorem check_and_notify_decision_witness:
  "sent (snd (check_and_notify cpython (answers (Some (account 1250000000000000000)) True DiskOk)
       ''42'' (world_of [(''42'', sub_a)] Missing))) =
     [(42, Alert addr_a (Finite (5 / 4)) (Finite (3 / 2)), True)]
   \<and> sent (snd (check_and_notify cpython (answers (Some (account 1500000000000000000)) True DiskOk)
       ''42'' (world_of [(''42'', sub_a)] Missing))) = []
   \<and> sent (snd (check_and_notify cpython (answers None True DiskOk)
       ''42'' (world_of [(''42'', sub_a)] Missing))) = [(42, Unable addr_a, True)]"
proof -
  let ?w = "world_of [(''42'', sub_a)] Missing"
  let ?w1 = "?w\<lparr>queried := [addr_a]\<rparr>"
  have m: "map_of (user_data ?w) ''42'' = Some sub_a"
    by (simp add: world_of_def)
  have i: "py_int cpython ''42'' = Some 42"
    by (simp add: cpython_def)
  have r1: "check_health_factor cpython (answers (Some (account 1250000000000000000)) True DiskOk)
              (address sub_a) ?w = (Some (Finite (5 / 4)), ?w1)"
    by (simp add: check_health_factor_def answers_def account_def world_of_def sub_a_def cpython_def)
  have r2: "check_health_factor cpython (answers (Some (account 1500000000000000000)) True DiskOk)
              (address sub_a) ?w = (Some (Finite (3 / 2)), ?w1)"
    by (simp add: check_health_factor_def answers_def account_def world_of_def sub_a_def cpython_def)
  have r3: "check_health_factor cpython (answers None True DiskOk) (address sub_a) ?w = (None, ?w1)"
    by (simp add: check_health_factor_def answers_def world_of_def sub_a_def)
  show ?thesis
    using check_and_notify_decision [OF m i r1] check_and_notify_decision [OF m i r2]
      check_and_notify_decision [OF m i r3]
    by (simp add: sub_a_def world_of_def answers_def)
qed

section \<open>What a step leaves untouched\<close>

lemma snd_seq_user_data:
  assumes "\<And>w'. user_data (snd (f w')) = user_data w'"
  shows "user_data (snd (seq r f)) = user_data (snd r)"
  using assms by (cases r) (auto simp: seq_def split: outcome.splits)

lemma send_frame:
  "user_data (snd (send orc n t w)) = user_data w \<and> data_file (snd (send orc n t w)) = data_file w
   \<and> writes (snd (send orc n t w)) = writes w \<and> queried (snd (send orc n t w)) = queried w"
  by (simp add: send_def Let_def)

lemma send_message_frame:
  "user_data (snd (send_message e orc k t w)) = user_data w
   \<and> data_file (snd (send_message e orc k t w)) = data_file w
   \<and> writes (snd (send_message e orc k t w)) = writes w
   \<and> queried (snd (send_message e orc k t w)) = queried w"
  by (simp add: send_message_def send_frame split: option.splits)

lemma check_health_factor_frame:
  "user_data (snd (check_health_factor e orc a w)) = user_data w
   \<and> data_file (snd (check_health_factor e orc a w)) = data_file w
   \<and> writes (snd (check_health_factor e orc a w)) = writes w
   \<and> sent (snd (check_health_factor e orc a w)) = sent w
   \<and> queried (snd (check_health_factor e orc a w)) = queried w @ [a]"
  by (simp add: check_health_factor_def Let_def split: option.splits)

lemma check_and_notify_frame:
  "user_data (snd (check_and_notify e orc k w)) = user_data w
   \<and> data_file (snd (check_and_notify e orc k w)) = data_file w
   \<and> writes (snd (check_and_notify e orc k w)) = writes w"
proof (cases "map_of (user_data w) k")
  case None
  then show ?thesis by (simp add: check_and_notify_def)
next
  case (Some sub)
  obtain r w1 where c: "check_health_factor e orc (address sub) w = (r, w1)"
    by (cases "check_health_factor e orc (address sub) w")
  from check_health_factor_frame [of e orc "address sub" w] c
  have f: "user_data w1 = user_data w" "data_file w1 = data_file w" "writes w1 = writes w"
    by simp_all
  show ?thesis
    using Some c f
    by (cases r) (simp_all add: check_and_notify_def send_message_frame)
qed

lemma check_each_frame:
  "user_data (snd (check_each e orc ks w)) = user_data w
   \<and> data_file (snd (check_each e orc ks w)) = data_file w
   \<and> writes (snd (check_each e orc ks w)) = writes w"
proof (induction ks arbitrary: w)
  case Nil
  then show ?case by simp
next
  case (Cons k ks)
  obtain out w1 where c: "check_and_notify e orc k w = (out, w1)"
    by (cases "check_and_notify e orc k w")
  from check_and_notify_frame [of e orc k w] c
  have f: "user_data w1 = user_data w" "data_file w1 = data_file w" "writes w1 = writes w"
    by simp_all
  show ?case
  proof (cases out)
    case Done
    with c f Cons.IH [of w1] show ?thesis by (simp add: seq_def)
  next
    case (Raised x)
    with c f show ?thesis by (simp add: seq_def)
  qed
qed

section \<open>The sweep\<close>

text \<open>
  Claim C9. A sweep never changes the registry: whatever the contract calls return and
  whether the sends succeed or raise, after \<open>periodic_check\<close> the dict \<open>user_data\<close> is the
  one before it, and so is the data file, which is not even opened.
\<close>

theorem periodic_check_read_only:
  "user_data (snd (periodic_check e orc w)) = user_data w
   \<and> data_file (snd (periodic_check e orc w)) = data_file w
   \<and> writes (snd (periodic_check e orc w)) = writes w"
  unfolding periodic_check_def by (rule check_each_frame)

section \<open>Stopping\<close>

text \<open>
  Claim C8. \<open>stop\<close> for a chat that has no subscription answers that nothing was
  monitored and leaves the dict and the data file as they were, without opening the file;
  the file is written (once) only when a subscription is really removed.
\<close>

theorem stop_absent_unchanged:
  "(map_of (user_data w) (py_str e (chat u)) = None \<longrightarrow>
      sent (snd (stop e orc u w)) = sent w @ [(chat u, WasNotMonitoring, deliver orc (length (sent w)))]
      \<and> user_data (snd (stop e orc u w)) = user_data w
      \<and> data_file (snd (stop e orc u w)) = data_file w
      \<and> writes (snd (stop e orc u w)) = writes w)
   \<and> (map_of (user_data w) (py_str e (chat u)) \<noteq> None \<longrightarrow>
      writes (snd (stop e orc u w)) = Suc (writes w)
      \<and> user_data (snd (stop e orc u w)) = AList.delete (py_str e (chat u)) (user_data w))"
  by (auto simp: stop_def reply_text_def send_def save_user_data_def seq_def Let_def
      split: disk_fault.splits)

text \<open>
  On a registry holding chat 42 only: \<open>stop\<close> from chat 7 changes nothing, \<open>stop\<close> from
  chat 42 removes the entry and writes the file once.
\<close>

theorem stop_absent_unchanged_witness:
  "sent (snd (stop cpython (answers None True DiskOk) \<lparr>chat = 7, args = []\<rparr>
        (world_of [(''42'', sub_a)] (Text text_a)))) = [(7, WasNotMonitoring, True)]
   \<and> user_data (snd (stop cpython (answers None True DiskOk) \<lparr>chat = 7, args = []\<rparr>
        (world_of [(''42'', sub_a)] (Text text_a)))) = [(''42'', sub_a)]
   \<and> data_file (snd (stop cpython (answers None True DiskOk) \<lparr>chat = 7, args = []\<rparr>
        (world_of [(''42'', sub_a)] (Text text_a)))) = Text text_a
   \<and> writes (snd (stop cpython (answers None True DiskOk) \<lparr>chat = 7, args = []\<rparr>
        (world_of [(''42'', sub_a)] (Text text_a)))) = 0
   \<and> writes (snd (stop cpython (answers None True DiskOk) \<lparr>chat = 42, args = []\<rparr>
        (world_of [(''42'', sub_a)] (Text text_a)))) = 1
   \<and> user_data (snd (stop cpython (answers None True DiskOk) \<lparr>chat = 42, args = []\<rparr>
        (world_of [(''42'', sub_a)] (Text text_a)))) = []"
  using stop_absent_unchanged [of "world_of [(''42'', sub_a)] (Text text_a)" cpython
      "\<lparr>chat = 7, args = []\<rparr>" "answers None True DiskOk"]
    stop_absent_unchanged [of "world_of [(''42'', sub_a)] (Text text_a)" cpython
      "\<lparr>chat = 42, args = []\<rparr>" "answers None True DiskOk"]
  by (simp add: world_of_def cpython_def answers_def)

section \<open>Loading the stored state\<close>




section \<open>The monitor command\<close>

lemma map_entry_twice_lookup:
  "map_of al k = Some old \<Longrightarrow>
   map_of (AList.map_entry k (\<lambda>s. s\<lparr>address := a\<rparr>) (AList.map_entry k (\<lambda>s. s\<lparr>threshold := t\<rparr>) al)) k
     = Some \<lparr>threshold = t, address = a\<rparr>"
  by (simp add: map_of_map_entry)

lemma monitor_user_data:
  assumes "args u = [a0, a1]" and "py_float e a0 = Some t" and "is_address e a1"
  shows "user_data (snd (monitor e orc u w)) =
     (case map_of (user_data w) (py_str e (chat u)) of
        Some old \<Rightarrow> AList.map_entry (py_str e (chat u)) (\<lambda>s. s\<lparr>address := a1\<rparr>)
                      (AList.map_entry (py_str e (chat u)) (\<lambda>s. s\<lparr>threshold := t\<rparr>) (user_data w))
      | None \<Rightarrow> AList.update (py_str e (chat u)) \<lparr>threshold = t, address = a1\<rparr> (user_data w))"
proof -
  let ?k = "py_str e (chat u)"
  let ?d = "case map_of (user_data w) ?k of
        Some old \<Rightarrow> AList.map_entry ?k (\<lambda>s. s\<lparr>address := a1\<rparr>)
                      (AList.map_entry ?k (\<lambda>s. s\<lparr>threshold := t\<rparr>) (user_data w))
      | None \<Rightarrow> AList.update ?k \<lparr>threshold = t, address = a1\<rparr> (user_data w)"
  let ?m = "case map_of (user_data w) ?k of Some old \<Rightarrow> Updated a1 t | None \<Rightarrow> Started a1 t"
  have m: "monitor e orc u w =
      seq (save_user_data e orc (dict_of ?d) (w\<lparr>user_data := ?d\<rparr>))
        (\<lambda>w2. seq (reply_text orc u ?m w2) (check_and_notify e orc ?k))"
    using assms by (simp add: monitor_def Let_def split: option.splits)
  have s: "user_data (snd (save_user_data e orc (dict_of ?d) (w\<lparr>user_data := ?d\<rparr>))) = ?d"
    by (simp add: save_user_data_def Let_def split: disk_fault.splits)
  have "user_data (snd (monitor e orc u w)) =
      user_data (snd (save_user_data e orc (dict_of ?d) (w\<lparr>user_data := ?d\<rparr>)))"
    unfolding m
    by (simp add: snd_seq_user_data reply_text_def send_frame check_and_notify_frame)
  with s show ?thesis by simp
qed

lemma thresholds_update:
  "thresholds (AList.update k \<lparr>threshold = t, address = a\<rparr> al) \<subseteq> insert t (thresholds al)"
  by (induction al) (auto simp: thresholds_def)

lemma thresholds_map_entry_threshold:
  "thresholds (AList.map_entry k (\<lambda>s. s\<lparr>threshold := t\<rparr>) al) \<subseteq> insert t (thresholds al)"
  by (induction al) (auto simp: thresholds_def)

lemma thresholds_map_entry_address:
  "thresholds (AList.map_entry k (\<lambda>s. s\<lparr>address := a\<rparr>) al) = thresholds al"
  by (induction al) (auto simp: thresholds_def)

lemma monitor_lookup:
  assumes "args u = [a0, a1]" and "py_float e a0 = Some t" and "is_address e a1"
  shows "map_of (user_data (snd (monitor e orc u w))) (py_str e (chat u)) =
           Some \<lparr>threshold = t, address = a1\<rparr>"
  unfolding monitor_user_data [OF assms]
  by (cases "map_of (user_data w) (py_str e (chat u))")
    (simp_all add: map_entry_twice_lookup update_conv')

lemma monitor_rejects:
  assumes "args u = [a0, a1]" and "py_float e a0 = None \<or> \<not> is_address e a1"
  shows "user_data (snd (monitor e orc u w)) = user_data w
       \<and> data_file (snd (monitor e orc u w)) = data_file w
       \<and> writes (snd (monitor e orc u w)) = writes w"
  using assms
  by (auto simp: monitor_def Let_def reply_text_def send_frame split: option.splits)

text \<open>
  Claim C2 fails as stated: \<open>/monitor -1 <address>\<close> is accepted, since \<open>float('-1')\<close> is a
  float, and the threshold \<open>-1.0\<close> is stored for chat 42.
\<close>

theorem monitor_stores_negative_threshold:
  "map_of (user_data (snd (monitor cpython (answers None True DiskOk)
       \<lparr>chat = 42, args = [''-1'', addr_a]\<rparr> (world_of [] Missing)))) ''42''
     = Some \<lparr>threshold = Finite (- 1), address = addr_a\<rparr>
   \<and> \<not> finite_positive (Finite (- 1))"
proof -
  have "map_of (user_data (snd (monitor cpython (answers None True DiskOk)
       \<lparr>chat = 42, args = [''-1'', addr_a]\<rparr> (world_of [] Missing))))
         (py_str cpython (chat \<lparr>chat = 42, args = [''-1'', addr_a]\<rparr>))
     = Some \<lparr>threshold = Finite (- 1), address = addr_a\<rparr>"
    by (rule monitor_lookup [where ?a0.0 = "''-1''"]) (simp_all add: cpython_def)
  then show ?thesis by (simp add: cpython_def)
qed

text \<open>
  Claim C2, amended. \<open>monitor\<close> rejects a threshold argument only when \<open>float()\<close> cannot
  parse it (and an address only when \<open>w3.is_address\<close> refuses it), and then neither the dict
  nor the data file changes. Otherwise it stores exactly the float that \<open>float()\<close> returned,
  whatever its sign or size, and every threshold in the dict afterwards is that float or
  one that was stored before.
\<close>

theorem monitor_stores_parsed_threshold:
  assumes "args u = [a0, a1]"
  shows "(py_float e a0 = None \<or> \<not> is_address e a1 \<longrightarrow>
            user_data (snd (monitor e orc u w)) = user_data w
            \<and> data_file (snd (monitor e orc u w)) = data_file w
            \<and> writes (snd (monitor e orc u w)) = writes w)
       \<and> (\<forall>t. py_float e a0 = Some t \<and> is_address e a1 \<longrightarrow>
            map_of (user_data (snd (monitor e orc u w))) (py_str e (chat u))
              = Some \<lparr>threshold = t, address = a1\<rparr>
            \<and> thresholds (user_data (snd (monitor e orc u w))) \<subseteq> insert t (thresholds (user_data w)))"
proof (intro conjI allI impI)
  fix t assume v: "py_float e a0 = Some t \<and> is_address e a1"
  then have p: "py_float e a0 = Some t" and a: "is_address e a1" by simp_all
  show "map_of (user_data (snd (monitor e orc u w))) (py_str e (chat u))
          = Some \<lparr>threshold = t, address = a1\<rparr>"
    by (rule monitor_lookup [OF assms p a])
  show "thresholds (user_data (snd (monitor e orc u w))) \<subseteq> insert t (thresholds (user_data w))"
    unfolding monitor_user_data [OF assms p a]
    using thresholds_update thresholds_map_entry_threshold
    by (cases "map_of (user_data w) (py_str e (chat u))")
      (simp_all add: thresholds_map_entry_address)
qed (simp_all add: monitor_rejects [OF assms])

text \<open>
  On the empty registry: the argument \<open>abc\<close> is rejected and nothing changes; the
  argument \<open>1.5\<close> is stored as the threshold 1.5.
\<close>

theorem monitor_stores_parsed_threshold_witness:
  "user_data (snd (monitor cpython (answers None True DiskOk)
       \<lparr>chat = 42, args = [''abc'', addr_a]\<rparr> (world_of [] Missing))) = []
   \<and> data_file (snd (monitor cpython (answers None True DiskOk)
       \<lparr>chat = 42, args = [''abc'', addr_a]\<rparr> (world_of [] Missing))) = Missing
   \<and> map_of (user_data (snd (monitor cpython (answers None True DiskOk)
       \<lparr>chat = 42, args = [''1.5'', addr_a]\<rparr> (world_of [] Missing)))) ''42'' = Some sub_a
   \<and> thresholds (user_data (snd (monitor cpython (answers None True DiskOk)
       \<lparr>chat = 42, args = [''1.5'', addr_a]\<rparr> (world_of [] Missing)))) \<subseteq> {Finite (3 / 2)}"
  using monitor_stores_parsed_threshold [of "\<lparr>chat = 42, args = [''abc'', addr_a]\<rparr>" "''abc''" addr_a
      cpython "answers None True DiskOk" "world_of [] Missing"]
    monitor_stores_parsed_threshold [of "\<lparr>chat = 42, args = [''1.5'', addr_a]\<rparr>" "''1.5''" addr_a
      cpython "answers None True DiskOk" "world_of [] Missing"]
  by (simp add: cpython_def world_of_def sub_a_def thresholds_def)

lemma monitor_valid:
  assumes "args u = [a0, a1]" and "py_float e a0 = Some t" and "is_address e a1"
  shows "monitor e orc u w =
      seq (save_user_data e orc (dict_of (upserted (py_str e (chat u)) t a1 (user_data w)))
             (w\<lparr>user_data := upserted (py_str e (chat u)) t a1 (user_data w)\<rparr>))
        (\<lambda>w2. seq (reply_text orc u (confirmation (py_str e (chat u)) t a1 (user_data w)) w2)
                 (check_and_notify e orc (py_str e (chat u))))"
  using assms
  by (simp add: monitor_def Let_def upserted_def confirmation_def split: option.splits)

lemma upserted_lookup: "map_of (upserted k t a d) k = Some \<lparr>threshold = t, address = a\<rparr>"
  by (cases "map_of d k") (simp_all add: upserted_def map_entry_twice_lookup update_conv')

lemma monitor_saved:
  assumes "args u = [a0, a1]" and "py_float e a0 = Some t" and "is_address e a1"
    and "disk orc (writes w) = DiskOk"
  shows "monitor e orc u w =
      seq (reply_text orc u (confirmation (py_str e (chat u)) t a1 (user_data w))
             (w\<lparr>user_data := upserted (py_str e (chat u)) t a1 (user_data w),
                writes := Suc (writes w),
                data_file := Text (json_dumps e (dict_of (upserted (py_str e (chat u)) t a1 (user_data w))))\<rparr>))
          (check_and_notify e orc (py_str e (chat u)))"
  unfolding monitor_valid [OF assms(1-3)]
  using assms(4) by (simp add: save_user_data_def seq_def)

lemma monitor_not_saved:
  assumes "args u = [a0, a1]" and "py_float e a0 = Some t" and "is_address e a1"
    and "disk orc (writes w) \<noteq> DiskOk"
  shows "fst (monitor e orc u w) = Raised OSError \<and> sent (snd (monitor e orc u w)) = sent w"
  unfolding monitor_valid [OF assms(1-3)]
  using assms(4) by (cases "disk orc (writes w)") (simp_all add: save_user_data_def seq_def)

lemma check_and_notify_sent_prefix:
  "\<exists>more. sent (snd (check_and_notify e orc k w)) = sent w @ more"
proof (cases "map_of (user_data w) k")
  case None
  then show ?thesis by (simp add: check_and_notify_def)
next
  case (Some sub)
  obtain r w1 where c: "check_health_factor e orc (address sub) w = (r, w1)"
    by (cases "check_health_factor e orc (address sub) w")
  from check_health_factor_frame [of e orc "address sub" w] c
  have f: "sent w1 = sent w" by simp
  show ?thesis
    using Some c f
    by (cases r) (auto simp: check_and_notify_def send_message_def send_def Let_def split: option.splits)
qed

lemma monitor_confirmation:
  assumes "args u = [a0, a1]" and "py_float e a0 = Some t" and "is_address e a1"
    and "disk orc (writes w) = DiskOk"
  shows "\<exists>more. sent (snd (monitor e orc u w)) =
           sent w @ (chat u, confirmation (py_str e (chat u)) t a1 (user_data w),
                     deliver orc (length (sent w))) # more"
proof (cases "deliver orc (length (sent w))")
  case False
  then show ?thesis
    unfolding monitor_saved [OF assms]
    by (simp add: reply_text_def send_def seq_def)
next
  case True
  let ?w3 = "w\<lparr>user_data := upserted (py_str e (chat u)) t a1 (user_data w),
                writes := Suc (writes w),
                data_file := Text (json_dumps e (dict_of (upserted (py_str e (chat u)) t a1 (user_data w)))),
                sent := sent w @ [(chat u, confirmation (py_str e (chat u)) t a1 (user_data w), True)]\<rparr>"
  have m: "monitor e orc u w = check_and_notify e orc (py_str e (chat u)) ?w3"
    unfolding monitor_saved [OF assms]
    using True by (simp add: reply_text_def send_def seq_def)
  from check_and_notify_sent_prefix [of e orc "py_str e (chat u)" ?w3]
  obtain more where "sent (snd (check_and_notify e orc (py_str e (chat u)) ?w3)) = sent ?w3 @ more"
    by blast
  with m True show ?thesis by simp
qed

text \<open>
  Claim C7. After \<open>monitor\<close> with a threshold that \<open>float()\<close> parses and an address that
  \<open>w3.is_address\<close> accepts, the dict holds for that chat exactly the new threshold and the
  new address, nothing of an earlier subscription; a following \<open>check\<close> from the same chat
  reports exactly these two values; and, once the file is written, the reply says
  \<open>Started\<close> for a new chat and \<open>Updated\<close> for a chat that already had a subscription.
\<close>

theorem monitor_then_check:
  assumes "args u = [a0, a1]" and "py_float e a0 = Some t" and "is_address e a1"
    and "chat u2 = chat u"
  shows "map_of (user_data (snd (monitor e orc u w))) (py_str e (chat u))
           = Some \<lparr>threshold = t, address = a1\<rparr>
       \<and> sent (snd (check e orc2 u2 (snd (monitor e orc u w)))) =
           sent (snd (monitor e orc u w)) @
             [(chat u,
               (case fst (check_health_factor e orc2 a1 (snd (monitor e orc u w))) of
                  Some h \<Rightarrow> Monitoring a1 t h
                | None \<Rightarrow> MonitoringNoFactor a1 t),
               deliver orc2 (length (sent (snd (monitor e orc u w)))))]
       \<and> (disk orc (writes w) = DiskOk \<longrightarrow>
            sent (snd (monitor e orc u w)) ! length (sent w) =
              (chat u,
               (case map_of (user_data w) (py_str e (chat u)) of
                  None \<Rightarrow> Started a1 t
                | Some old \<Rightarrow> Updated a1 t),
               deliver orc (length (sent w))))"
proof (intro conjI impI)
  let ?w' = "snd (monitor e orc u w)"
  show l: "map_of (user_data ?w') (py_str e (chat u)) = Some \<lparr>threshold = t, address = a1\<rparr>"
    by (rule monitor_lookup [OF assms(1-3)])
  obtain r w1 where c: "check_health_factor e orc2 a1 ?w' = (r, w1)"
    by (cases "check_health_factor e orc2 a1 ?w'")
  from check_health_factor_frame [of e orc2 a1 ?w'] c
  have f: "sent w1 = sent ?w'" by simp
  show "sent (snd (check e orc2 u2 ?w')) =
           sent ?w' @
             [(chat u,
               (case fst (check_health_factor e orc2 a1 ?w') of
                  Some h \<Rightarrow> Monitoring a1 t h
                | None \<Rightarrow> MonitoringNoFactor a1 t),
               deliver orc2 (length (sent ?w')))]"
    using l c f assms(4)
    by (cases r) (simp_all add: check_def Let_def reply_text_def send_def)
next
  assume d: "disk orc (writes w) = DiskOk"
  from monitor_confirmation [OF assms(1-3) d]
  obtain more where "sent (snd (monitor e orc u w)) =
           sent w @ (chat u, confirmation (py_str e (chat u)) t a1 (user_data w),
                     deliver orc (length (sent w))) # more"
    by blast
  then show "sent (snd (monitor e orc u w)) ! length (sent w) =
              (chat u,
               (case map_of (user_data w) (py_str e (chat u)) of
                  None \<Rightarrow> Started a1 t
                | Some old \<Rightarrow> Updated a1 t),
               deliver orc (length (sent w)))"
    by (simp add: confirmation_def)
qed

text \<open>
  On a registry where chat 42 watches the first address with threshold 1.5:
  \<open>/monitor 2 <second address>\<close> from chat 42 replaces both values and answers \<open>Updated\<close>;
  the same command from chat 7 answers \<open>Started\<close>.
\<close>

theorem monitor_then_check_witness:
  "map_of (user_data (snd (monitor cpython (answers None True DiskOk)
       \<lparr>chat = 42, args = [''2'', addr_b]\<rparr> (world_of [(''42'', sub_a)] (Text text_a))))) ''42''
     = Some \<lparr>threshold = Finite 2, address = addr_b\<rparr>
   \<and> sent (snd (monitor cpython (answers None True DiskOk)
       \<lparr>chat = 42, args = [''2'', addr_b]\<rparr> (world_of [(''42'', sub_a)] (Text text_a)))) ! 0
     = (42, Updated addr_b (Finite 2), True)
   \<and> sent (snd (monitor cpython (answers None True DiskOk)
       \<lparr>chat = 7, args = [''2'', addr_b]\<rparr> (world_of [(''42'', sub_a)] (Text text_a)))) ! 0
     = (7, Started addr_b (Finite 2), True)"
proof -
  let ?w = "world_of [(''42'', sub_a)] (Text text_a)"
  let ?o = "answers None True DiskOk"
  have f: "py_float cpython ''2'' = Some (Finite 2)" and a: "is_address cpython addr_b"
    by (simp_all add: cpython_def)
  have d: "disk ?o (writes ?w) = DiskOk" and l: "length (sent ?w) = 0"
    by (simp_all add: answers_def world_of_def)
  have u: "args \<lparr>chat = 42, args = [''2'', addr_b]\<rparr> = [''2'', addr_b]"
    and v: "args \<lparr>chat = 7, args = [''2'', addr_b]\<rparr> = [''2'', addr_b]"
    by simp_all
  show ?thesis
    using monitor_then_check [OF u f a refl, of ?o ?w ?o]
      monitor_then_check [OF v f a refl, of ?o ?w ?o] d l
    by (simp add: cpython_def world_of_def answers_def)
qed

text \<open>
  Claim C10 fails as stated: \<open>/monitor 1.5 <address>\<close> from chat 42 while Telegram refuses
  the confirmation. The subscription is stored and the file is written, but the exception
  of \<open>reply_text\<close> ends the handler: no contract call is made and no alert is sent, although
  the health factor 1.25 is below the threshold.
\<close>

theorem monitor_skips_evaluation_when_reply_fails:
  "fst (monitor cpython (answers (Some (account 1250000000000000000)) False DiskOk)
       \<lparr>chat = 42, args = [''1.5'', addr_a]\<rparr> (world_of [] Missing)) = Raised TelegramError
   \<and> user_data (snd (monitor cpython (answers (Some (account 1250000000000000000)) False DiskOk)
       \<lparr>chat = 42, args = [''1.5'', addr_a]\<rparr> (world_of [] Missing))) = [(''42'', sub_a)]
   \<and> data_file (snd (monitor cpython (answers (Some (account 1250000000000000000)) False DiskOk)
       \<lparr>chat = 42, args = [''1.5'', addr_a]\<rparr> (world_of [] Missing))) = Text text_a
   \<and> queried (snd (monitor cpython (answers (Some (account 1250000000000000000)) False DiskOk)
       \<lparr>chat = 42, args = [''1.5'', addr_a]\<rparr> (world_of [] Missing))) = []
   \<and> sent (snd (monitor cpython (answers (Some (account 1250000000000000000)) False DiskOk)
       \<lparr>chat = 42, args = [''1.5'', addr_a]\<rparr> (world_of [] Missing)))
     = [(42, Started addr_a (Finite (3 / 2)), False)]"
proof -
  let ?w = "world_of [] Missing"
  let ?o = "answers (Some (account 1250000000000000000)) False DiskOk"
  let ?u = "\<lparr>chat = 42, args = [''1.5'', addr_a]\<rparr>"
  have u: "args ?u = [''1.5'', addr_a]" by simp
  have f: "py_float cpython ''1.5'' = Some (Finite (3 / 2))" and a: "is_address cpython addr_a"
    and k: "py_str cpython (chat ?u) = ''42''"
    by (simp_all add: cpython_def)
  have d: "disk ?o (writes ?w) = DiskOk"
    by (simp add: answers_def world_of_def)
  have r: "upserted ''42'' (Finite (3 / 2)) addr_a (user_data ?w) = [(''42'', sub_a)]"
    by (simp add: upserted_def world_of_def sub_a_def)
  have j: "json_dumps cpython (dict_of [(''42'', sub_a)]) = text_a"
    by (simp add: cpython_def)
  show ?thesis
    unfolding monitor_saved [OF u f a d] k r j
    by (simp add: reply_text_def send_def seq_def answers_def world_of_def confirmation_def)
qed

text \<open>
  Claim C10, amended. A \<open>monitor\<close> command with a valid threshold and address whose file
  write and confirmation reply both succeed goes on, before it returns, to evaluate the
  new subscription once: it makes one contract call for the new address and sends the
  alert when the reading is below the new threshold, the unavailable notice when there is
  no reading, and nothing more otherwise.
\<close>

theorem monitor_evaluates_at_once:
  assumes "args u = [a0, a1]" and "py_float e a0 = Some t" and "is_address e a1"
    and "disk orc (writes w) = DiskOk"
    and "deliver orc (length (sent w))"
    and "py_int e (py_str e (chat u)) = Some (chat u)"
  shows "queried (snd (monitor e orc u w)) = queried w @ [a1]
       \<and> sent (snd (monitor e orc u w)) =
           sent w
           @ [(chat u,
               (case map_of (user_data w) (py_str e (chat u)) of
                  None \<Rightarrow> Started a1 t
                | Some old \<Rightarrow> Updated a1 t),
               True)]
           @ (case fst (check_health_factor e orc a1 w) of
                Some h \<Rightarrow>
                  if float_lt h t
                  then [(chat u, Alert a1 h t, deliver orc (Suc (length (sent w))))]
                  else []
              | None \<Rightarrow> [(chat u, Unable a1, deliver orc (Suc (length (sent w))))])"
proof -
  let ?k = "py_str e (chat u)"
  let ?w3 = "w\<lparr>user_data := upserted ?k t a1 (user_data w),
                writes := Suc (writes w),
                data_file := Text (json_dumps e (dict_of (upserted ?k t a1 (user_data w)))),
                sent := sent w @ [(chat u, confirmation ?k t a1 (user_data w), True)]\<rparr>"
  have m: "monitor e orc u w = check_and_notify e orc ?k ?w3"
    unfolding monitor_saved [OF assms(1-4)]
    using assms(5) by (simp add: reply_text_def send_def seq_def)
  have l: "map_of (user_data ?w3) ?k = Some \<lparr>threshold = t, address = a1\<rparr>"
    by (simp add: upserted_lookup)
  show ?thesis
    unfolding m
    using l assms(6)
    by (auto simp: check_and_notify_def check_health_factor_def send_message_def send_def
        Let_def confirmation_def split: option.splits)
qed

text \<open>
  \<open>/monitor 1.5 <address>\<close> from chat 42 while the health factor is 1.25: the
  confirmation is followed at once by the alert.
\<close>

theorem monitor_evaluates_at_once_witness:
  "queried (snd (monitor cpython (answers (Some (account 1250000000000000000)) True DiskOk)
       \<lparr>chat = 42, args = [''1.5'', addr_a]\<rparr> (world_of [] Missing))) = [addr_a]
   \<and> sent (snd (monitor cpython (answers (Some (account 1250000000000000000)) True DiskOk)
       \<lparr>chat = 42, args = [''1.5'', addr_a]\<rparr> (world_of [] Missing)))
     = [(42, Started addr_a (Finite (3 / 2)), True),
        (42, Alert addr_a (Finite (5 / 4)) (Finite (3 / 2)), True)]"
proof -
  let ?w = "world_of [] Missing"
  let ?o = "answers (Some (account 1250000000000000000)) True DiskOk"
  let ?u = "\<lparr>chat = 42, args = [''1.5'', addr_a]\<rparr>"
  have u: "args ?u = [''1.5'', addr_a]" by simp
  have f: "py_float cpython ''1.5'' = Some (Finite (3 / 2))" and a: "is_address cpython addr_a"
    and i: "py_int cpython (py_str cpython (chat ?u)) = Some (chat ?u)"
    by (simp_all add: cpython_def)
  have d: "disk ?o (writes ?w) = DiskOk" and s: "deliver ?o (length (sent ?w))"
    by (simp_all add: answers_def world_of_def)
  have r: "fst (check_health_factor cpython ?o addr_a ?w) = Some (Finite (5 / 4))"
    by (simp add: check_health_factor_def answers_def account_def world_of_def cpython_def)
  show ?thesis
    using monitor_evaluates_at_once [OF u f a d s i] r
    by (simp add: world_of_def answers_def)
qed

section \<open>Saving and loading\<close>

lemma dict_of_inject: "dict_of a = dict_of b \<Longrightarrow> a = b"
proof (induction a arbitrary: b)
  case Nil
  then show ?case by (simp add: dict_of_def)
next
  case (Cons p a)
  then obtain q b' where b: "b = q # b'"
    by (cases b) (auto simp: dict_of_def)
  from Cons.prems b have "p = q"
    by (cases p; cases q) (auto simp: dict_of_def)
  moreover from Cons.prems b have "dict_of a = dict_of b'"
    by (simp add: dict_of_def)
  ultimately show ?case
    using Cons.IH b by simp
qed

lemma dropWhile_hd: "s \<noteq> [] \<Longrightarrow> \<not> P (hd s) \<Longrightarrow> dropWhile P s = s"
  by (cases s) simp_all

lemma strip_json_text:
  assumes "s \<noteq> []" and "\<not> py_isspace (hd s)" and "\<not> py_isspace (last s)"
  shows "strip s = s"
proof -
  have "dropWhile py_isspace s = s"
    using assms(1,2) by (rule dropWhile_hd)
  moreover have "dropWhile py_isspace (rev s) = rev s"
    using assms(1,3) by (intro dropWhile_hd) (simp_all add: hd_rev)
  ultimately show ?thesis by (simp add: strip_def)
qed

lemma load_dumped:
  assumes "json_contract e v"
  shows "load_user_data e (Text (json_dumps e v)) = Inr v"
proof -
  have "strip (json_dumps e v) = json_dumps e v"
    using assms by (intro strip_json_text) (simp_all add: json_contract_def)
  then show ?thesis
    using assms by (simp add: load_user_data_def read_stripped_def json_contract_def)
qed

text \<open>
  Claim C6. For a registry \<open>m\<close> that the \<open>json\<close> library writes and reads back
  (\<open>json_contract\<close>), loading after a completed save of \<open>m\<close> gives the dict of \<open>m\<close> again, and
  the dict of no other registry; and saving what was loaded is idempotent: doing it twice
  leaves the file that doing it once leaves.
\<close>

theorem save_load_round_trip:
  assumes "json_contract e (dict_of m)"
    and "\<And>v. load_user_data e (data_file w) = Inr v \<Longrightarrow> json_contract e v"
    and "\<forall>k. disk orc k = DiskOk"
  shows "load_user_data e (data_file (snd (save_user_data e orc (dict_of m) w))) = Inr (dict_of m)
       \<and> (\<forall>m'. load_user_data e (data_file (snd (save_user_data e orc (dict_of m) w)))
                 = Inr (dict_of m') \<longrightarrow> m' = m)
       \<and> data_file (resave e orc (resave e orc w)) = data_file (resave e orc w)"
proof (intro conjI allI impI)
  have s: "\<And>d w'. data_file (snd (save_user_data e orc d w')) = Text (json_dumps e d)"
    using assms(3) by (simp add: save_user_data_def)
  show l: "load_user_data e (data_file (snd (save_user_data e orc (dict_of m) w))) = Inr (dict_of m)"
    unfolding s by (rule load_dumped [OF assms(1)])
  show "m' = m"
    if "load_user_data e (data_file (snd (save_user_data e orc (dict_of m) w))) = Inr (dict_of m')"
    for m'
    using that l by (simp add: dict_of_inject)
  show "data_file (resave e orc (resave e orc w)) = data_file (resave e orc w)"
  proof (cases "load_user_data e (data_file w)")
    case (Inl x)
    then show ?thesis by (simp add: resave_def)
  next
    case (Inr v)
    then have r: "resave e orc w = snd (save_user_data e orc v w)"
      by (simp add: resave_def)
    define w1 where "w1 = resave e orc w"
    have d1: "data_file w1 = Text (json_dumps e v)"
      unfolding w1_def r by (rule s)
    have "load_user_data e (data_file w1) = Inr v"
      unfolding d1 by (rule load_dumped [OF assms(2) [OF Inr]])
    then have "resave e orc w1 = snd (save_user_data e orc v w1)"
      by (simp add: resave_def)
    then have "data_file (resave e orc w1) = Text (json_dumps e v)"
      by (simp add: s)
    with d1 show ?thesis
      by (simp add: w1_def)
  qed
qed

text \<open>
  The registry of chats 42 and 7 round-trips, and re-saving the file that holds chat 42
  leaves its text as it is.
\<close>

theorem save_load_round_trip_witness:
  "load_user_data cpython (data_file (snd (save_user_data cpython (answers None True DiskOk)
       (dict_of [(''42'', sub_a), (''7'', sub_b)]) (world_of [] (Text text_a)))))
     = Inr (dict_of [(''42'', sub_a), (''7'', sub_b)])
   \<and> data_file (resave cpython (answers None True DiskOk)
        (resave cpython (answers None True DiskOk) (world_of [] (Text text_a)))) = Text text_a
   \<and> data_file (resave cpython (answers None True DiskOk) (world_of [] (Text text_a))) = Text text_a"
proof -
  have sp: "\<not> py_isspace CHR ''{''" "\<not> py_isspace CHR ''}''"
    by (simp_all add: py_isspace_def)
  have t: "strip text_a = text_a"
    by (rule strip_json_text) (simp_all add: text_a_def sp)
  have l: "load_user_data cpython (data_file (world_of [] (Text text_a))) = Inr (dict_of [(''42'', sub_a)])"
    by (simp add: load_user_data_def read_stripped_def world_of_def t)
      (simp add: cpython_def text_a_def)
  have j1: "json_dumps cpython (dict_of [(''42'', sub_a), (''7'', sub_b)]) = text_ab"
    and j2: "json_dumps cpython (dict_of [(''42'', sub_a)]) = text_a"
    by (simp_all add: cpython_def dict_of_def sub_a_def sub_b_def addr_a_def addr_b_def)
  have k1: "json_loads cpython text_ab = Inr (dict_of [(''42'', sub_a), (''7'', sub_b)])"
    and k2: "json_loads cpython text_a = Inr (dict_of [(''42'', sub_a)])"
    by (simp_all add: cpython_def text_a_def text_ab_def)
  have c1: "json_contract cpython (dict_of [(''42'', sub_a), (''7'', sub_b)])"
    unfolding json_contract_def j1 k1 by (simp add: text_ab_def sp)
  have c2: "\<And>v. load_user_data cpython (data_file (world_of [] (Text text_a))) = Inr v
      \<Longrightarrow> json_contract cpython v"
    unfolding l json_contract_def using j2 k2 by (auto simp: text_a_def sp)
  have d: "\<forall>k. disk (answers None True DiskOk) k = DiskOk"
    by (simp add: answers_def)
  have r: "data_file (resave cpython (answers None True DiskOk) (world_of [] (Text text_a))) = Text text_a"
    unfolding resave_def l using j2 by (simp add: save_user_data_def answers_def world_of_def)
  show ?thesis
    using save_load_round_trip [OF c1 c2 d] r
    by simp
qed

section \<open>Failures during a sweep\<close>

lemma check_and_notify_delivered:
  assumes "\<forall>k. deliver orc k" and "py_int e k \<noteq> None"
  shows "fst (check_and_notify e orc k w) = Done
       \<and> queried (snd (check_and_notify e orc k w)) =
           queried w @ (case map_of (user_data w) k of None \<Rightarrow> [] | Some s \<Rightarrow> [address s])"
  using assms
  by (auto simp: check_and_notify_def check_health_factor_def send_message_def send_def Let_def
      split: option.splits)

lemma check_each_delivered:
  assumes "\<forall>k. deliver orc k" and "\<forall>k \<in> set ks. py_int e k \<noteq> None"
  shows "fst (check_each e orc ks w) = Done
       \<and> queried (snd (check_each e orc ks w)) =
           queried w @ concat (map (\<lambda>k. case map_of (user_data w) k of None \<Rightarrow> [] | Some s \<Rightarrow> [address s]) ks)"
  using assms(2)
proof (induction ks arbitrary: w)
  case Nil
  then show ?case by simp
next
  case (Cons k ks)
  obtain out w1 where c: "check_and_notify e orc k w = (out, w1)"
    by (cases "check_and_notify e orc k w")
  from Cons.prems have pk: "py_int e k \<noteq> None" and pks: "\<forall>k \<in> set ks. py_int e k \<noteq> None"
    by simp_all
  from check_and_notify_delivered [OF assms(1) pk, of w] c
  have o: "out = Done"
    and q: "queried w1 = queried w @ (case map_of (user_data w) k of None \<Rightarrow> [] | Some s \<Rightarrow> [address s])"
    by simp_all
  from check_and_notify_frame [of e orc k w] c have f: "user_data w1 = user_data w"
    by simp
  from Cons.IH [OF pks, of w1] c o q f show ?case
    by (simp add: seq_def)
qed

lemma concat_singletons: "concat (map (\<lambda>p. [f p]) d) = map f d"
  by (induction d) simp_all

lemma lookup_each_key:
  assumes "distinct (map fst d)"
  shows "concat (map (\<lambda>k. case map_of d k of None \<Rightarrow> [] | Some s \<Rightarrow> [address s]) (map fst d))
     = map (\<lambda>(k, s). address s) d"
proof -
  have "map (\<lambda>k. case map_of d k of None \<Rightarrow> [] | Some s \<Rightarrow> [address s]) (map fst d)
      = map (\<lambda>p. [address (snd p)]) d"
    unfolding map_map
  proof (rule map_cong [OF refl])
    fix p assume "p \<in> set d"
    then have "map_of d (fst p) = Some (snd p)"
      using assms by simp
    then show "((\<lambda>k. case map_of d k of None \<Rightarrow> [] | Some s \<Rightarrow> [address s]) \<circ> fst) p
        = [address (snd p)]"
      by simp
  qed
  then have "concat (map (\<lambda>k. case map_of d k of None \<Rightarrow> [] | Some s \<Rightarrow> [address s]) (map fst d))
      = concat (map (\<lambda>p. [address (snd p)]) d)"
    by (rule arg_cong)
  also have "\<dots> = map (\<lambda>p. address (snd p)) d"
    by (rule concat_singletons)
  also have "\<dots> = map (\<lambda>(k, s). address s) d"
    by (simp only: case_prod_unfold)
  finally show ?thesis .
qed

text \<open>
  Claim C3 fails as stated: with two subscriptions, the source unavailable and Telegram
  refusing the message, the sweep raises at the first subscriber's notice and the second
  subscriber's address is never queried.
\<close>

theorem periodic_check_aborts_on_failed_send:
  "periodic_check cpython (answers None False DiskOk)
       (world_of [(''42'', sub_a), (''7'', sub_b)] (Text text_ab))
     = (Raised TelegramError,
        (world_of [(''42'', sub_a), (''7'', sub_b)] (Text text_ab))
          \<lparr>sent := [(42, Unable addr_a, False)], queried := [addr_a]\<rparr>)
   \<and> addr_b \<notin> set [addr_a]"
  by (simp add: periodic_check_def check_and_notify_def check_health_factor_def send_message_def
      send_def seq_def world_of_def answers_def cpython_def sub_a_def sub_b_def addr_a_def addr_b_def)

text \<open>
  Claim C3, amended. Whatever the contract calls return or raise, a sweep in which every
  send is delivered ends normally and evaluates every subscription, in the order of the
  dict: one contract call per subscription. (Chat ids are the keys, distinct and numeric.)
\<close>

theorem periodic_check_source_failures_isolated:
  assumes "distinct (map fst (user_data w))"
    and "\<forall>k. deliver orc k"
    and "\<forall>k \<in> set (map fst (user_data w)). py_int e k \<noteq> None"
  shows "fst (periodic_check e orc w) = Done
       \<and> queried (snd (periodic_check e orc w)) = queried w @ map (\<lambda>(k, s). address s) (user_data w)"
  unfolding periodic_check_def
  using check_each_delivered [OF assms(2,3), of w] lookup_each_key [OF assms(1)]
  by simp

text \<open>
  Two subscriptions, the source unavailable for both, every notice delivered: both
  addresses are queried.
\<close>

theorem periodic_check_source_failures_isolated_witness:
  "fst (periodic_check cpython (answers None True DiskOk)
       (world_of [(''42'', sub_a), (''7'', sub_b)] (Text text_ab))) = Done
   \<and> queried (snd (periodic_check cpython (answers None True DiskOk)
       (world_of [(''42'', sub_a), (''7'', sub_b)] (Text text_ab)))) = [addr_a, addr_b]"
proof -
  let ?w = "world_of [(''42'', sub_a), (''7'', sub_b)] (Text text_ab)"
  have a: "distinct (map fst (user_data ?w))"
    by (simp add: world_of_def)
  have b: "\<forall>k. deliver (answers None True DiskOk) k"
    by (simp add: answers_def)
  have c: "\<forall>k \<in> set (map fst (user_data ?w)). py_int cpython k \<noteq> None"
    by (simp add: world_of_def cpython_def)
  show ?thesis
    using periodic_check_source_failures_isolated [OF a b c]
    by (simp add: world_of_def sub_a_def sub_b_def)
qed

section \<open>Durability of a mutation\<close>

text \<open>
  Claim C4 fails as stated: the file holds the subscription of chat 42; a \<open>monitor\<close>
  command from chat 7 whose write is cut right after the file was opened leaves the file
  empty, so that the stored subscription of chat 42 is gone from the durable state.
\<close>

theorem interrupted_write_loses_previous_state:
  "data_file (world_of [(''42'', sub_a)] (Text text_a)) = Text text_a
   \<and> fst (monitor cpython (answers None True (WriteFails 0))
       \<lparr>chat = 7, args = [''2'', addr_b]\<rparr> (world_of [(''42'', sub_a)] (Text text_a))) = Raised OSError
   \<and> data_file (snd (monitor cpython (answers None True (WriteFails 0))
       \<lparr>chat = 7, args = [''2'', addr_b]\<rparr> (world_of [(''42'', sub_a)] (Text text_a)))) = Text []
   \<and> load_user_data cpython (Text text_a) = Inr (dict_of [(''42'', sub_a)])
   \<and> load_user_data cpython (Text []) = Inr (dict_of [])"
proof -
  have t: "strip text_a = text_a"
    by (rule strip_json_text) (simp_all add: text_a_def py_isspace_def)
  have l: "load_user_data cpython (Text text_a) = Inr (dict_of [(''42'', sub_a)])"
    by (simp add: load_user_data_def read_stripped_def t) (simp add: cpython_def text_a_def)
  have e: "load_user_data cpython (Text []) = Inr (dict_of [])"
    by (simp add: load_user_data_def read_stripped_def strip_def dict_of_def)
  have u: "args \<lparr>chat = 7, args = [''2'', addr_b]\<rparr> = [''2'', addr_b]" by simp
  have f: "py_float cpython ''2'' = Some (Finite 2)" and a: "is_address cpython addr_b"
    by (simp_all add: cpython_def)
  have m: "monitor cpython (answers None True (WriteFails 0))
       \<lparr>chat = 7, args = [''2'', addr_b]\<rparr> (world_of [(''42'', sub_a)] (Text text_a))
     = (Raised OSError,
        (world_of [(''42'', sub_a)] (Text text_a))
          \<lparr>user_data := upserted ''7'' (Finite 2) addr_b [(''42'', sub_a)],
           writes := 1, data_file := Text []\<rparr>)"
    unfolding monitor_valid [OF u f a]
    by (simp add: save_user_data_def seq_def answers_def world_of_def cpython_def)
  show ?thesis
    using l e m by (simp add: world_of_def)
qed

text \<open>
  Claim C4, amended. A \<open>monitor\<close> command that stores a subscription and a \<open>stop\<close> that
  removes one rewrite the whole file before they reply: when the write completes the file
  holds the text of the complete new dict, and when it does not the command raises and no
  reply is sent. The write goes into the file itself, opened in truncating mode: a write
  cut after \<open>n\<close> characters leaves the first \<open>n\<close> characters of the new text in the file.
\<close>

theorem mutations_rewrite_snapshot:
  "(\<forall>a0 a1 t. args u = [a0, a1] \<and> py_float e a0 = Some t \<and> is_address e a1
        \<and> disk orc (writes w) = DiskOk \<longrightarrow>
      data_file (snd (monitor e orc u w)) = Text (json_dumps e (dict_of (user_data (snd (monitor e orc u w))))))
   \<and> (\<forall>a0 a1 t. args u = [a0, a1] \<and> py_float e a0 = Some t \<and> is_address e a1
        \<and> disk orc (writes w) \<noteq> DiskOk \<longrightarrow>
      fst (monitor e orc u w) = Raised OSError \<and> sent (snd (monitor e orc u w)) = sent w)
   \<and> (map_of (user_data w) (py_str e (chat u)) \<noteq> None \<and> disk orc (writes w) = DiskOk \<longrightarrow>
      data_file (snd (stop e orc u w)) = Text (json_dumps e (dict_of (user_data (snd (stop e orc u w))))))
   \<and> (map_of (user_data w) (py_str e (chat u)) \<noteq> None \<and> disk orc (writes w) \<noteq> DiskOk \<longrightarrow>
      fst (stop e orc u w) = Raised OSError \<and> sent (snd (stop e orc u w)) = sent w)
   \<and> (\<forall>n. disk orc (writes w) = WriteFails n \<longrightarrow>
      data_file (snd (save_user_data e orc d w)) = Text (take n (json_dumps e d)))"
proof (intro conjI allI impI)
  fix a0 a1 t
  assume h: "args u = [a0, a1] \<and> py_float e a0 = Some t \<and> is_address e a1
        \<and> disk orc (writes w) = DiskOk"
  then have v: "args u = [a0, a1]" "py_float e a0 = Some t" "is_address e a1"
    "disk orc (writes w) = DiskOk"
    by simp_all
  let ?w2 = "w\<lparr>user_data := upserted (py_str e (chat u)) t a1 (user_data w),
                writes := Suc (writes w),
                data_file := Text (json_dumps e (dict_of (upserted (py_str e (chat u)) t a1 (user_data w))))\<rparr>"
  let ?r = "reply_text orc u (confirmation (py_str e (chat u)) t a1 (user_data w)) ?w2"
  have r: "data_file (snd ?r) = data_file ?w2" "user_data (snd ?r) = user_data ?w2"
    by (simp_all add: reply_text_def send_frame)
  have "data_file (snd (monitor e orc u w)) = data_file ?w2"
    unfolding monitor_saved [OF v]
    by (cases ?r rule: prod.exhaust; cases "fst ?r")
      (use r in \<open>auto simp: seq_def check_and_notify_frame\<close>)
  moreover have "user_data (snd (monitor e orc u w)) = user_data ?w2"
    by (simp add: monitor_user_data [OF v(1-3)] upserted_def)
  ultimately show "data_file (snd (monitor e orc u w))
      = Text (json_dumps e (dict_of (user_data (snd (monitor e orc u w)))))"
    by simp
next
  fix a0 a1 t
  assume h: "args u = [a0, a1] \<and> py_float e a0 = Some t \<and> is_address e a1
        \<and> disk orc (writes w) \<noteq> DiskOk"
  then have v: "args u = [a0, a1]" "py_float e a0 = Some t" "is_address e a1"
    "disk orc (writes w) \<noteq> DiskOk"
    by simp_all
  from monitor_not_saved [OF v]
  show "fst (monitor e orc u w) = Raised OSError" and "sent (snd (monitor e orc u w)) = sent w"
    by simp_all
next
  assume "map_of (user_data w) (py_str e (chat u)) \<noteq> None \<and> disk orc (writes w) = DiskOk"
  then show "data_file (snd (stop e orc u w)) = Text (json_dumps e (dict_of (user_data (snd (stop e orc u w)))))"
    by (auto simp: stop_def save_user_data_def seq_def reply_text_def send_def Let_def)
next
  assume h: "map_of (user_data w) (py_str e (chat u)) \<noteq> None \<and> disk orc (writes w) \<noteq> DiskOk"
  then show "fst (stop e orc u w) = Raised OSError" and "sent (snd (stop e orc u w)) = sent w"
    by (cases "disk orc (writes w)"; auto simp: stop_def save_user_data_def seq_def Let_def)+
next
  fix n assume "disk orc (writes w) = WriteFails n"
  then show "data_file (snd (save_user_data e orc d w)) = Text (take n (json_dumps e d))"
    by (simp add: save_user_data_def)
qed

text \<open>
  On the file holding chat 42: a completed \<open>monitor\<close> from chat 7 leaves the text of both
  subscriptions, a completed \<open>stop\<close> from chat 42 leaves the text of the empty dict, a
  failed opening leaves no reply, and a write cut after one character leaves the opening
  brace.
\<close>

theorem mutations_rewrite_snapshot_witness:
  "data_file (snd (monitor cpython (answers None True DiskOk)
       \<lparr>chat = 7, args = [''2'', addr_b]\<rparr> (world_of [(''42'', sub_a)] (Text text_a)))) = Text text_ab
   \<and> sent (snd (monitor cpython (answers None True OpenFails)
       \<lparr>chat = 7, args = [''2'', addr_b]\<rparr> (world_of [(''42'', sub_a)] (Text text_a)))) = []
   \<and> data_file (snd (stop cpython (answers None True DiskOk)
       \<lparr>chat = 42, args = []\<rparr> (world_of [(''42'', sub_a)] (Text text_a)))) = Text ''{}''
   \<and> sent (snd (stop cpython (answers None True OpenFails)
       \<lparr>chat = 42, args = []\<rparr> (world_of [(''42'', sub_a)] (Text text_a)))) = []
   \<and> data_file (snd (save_user_data cpython (answers None True (WriteFails 1))
       (dict_of []) (world_of [(''42'', sub_a)] (Text text_a)))) = Text ''{''"
proof -
  let ?w = "world_of [(''42'', sub_a)] (Text text_a)"
  let ?u = "\<lparr>chat = 7, args = [''2'', addr_b]\<rparr>"
  let ?v = "\<lparr>chat = 42, args = []\<rparr>"
  have a: "args ?u = [''2'', addr_b] \<and> py_float cpython ''2'' = Some (Finite 2)
      \<and> is_address cpython addr_b"
    by (simp add: cpython_def)
  have k: "py_str cpython (chat ?u) = ''7''" "py_str cpython (chat ?v) = ''42''"
    by (simp_all add: cpython_def)
  have d: "user_data (snd (monitor cpython (answers None True DiskOk) ?u ?w))
      = [(''42'', sub_a), (''7'', sub_b)]"
    using a k by (simp add: monitor_user_data [of ?u "''2''" addr_b cpython "Finite 2"]
        world_of_def sub_b_def)
  have j: "json_dumps cpython (dict_of [(''42'', sub_a), (''7'', sub_b)]) = text_ab"
    "json_dumps cpython (dict_of []) = ''{}''"
    by (simp_all add: cpython_def dict_of_def sub_a_def sub_b_def addr_a_def addr_b_def)
  have s: "user_data (snd (stop cpython (answers None True DiskOk) ?v ?w)) = []"
    using k by (simp add: stop_def save_user_data_def seq_def reply_text_def send_def
        world_of_def answers_def)
  show ?thesis
    using mutations_rewrite_snapshot [of ?u cpython "answers None True DiskOk" ?w "dict_of []"]
      mutations_rewrite_snapshot [of ?u cpython "answers None True OpenFails" ?w "dict_of []"]
      mutations_rewrite_snapshot [of ?v cpython "answers None True DiskOk" ?w "dict_of []"]
      mutations_rewrite_snapshot [of ?v cpython "answers None True OpenFails" ?w "dict_of []"]
      mutations_rewrite_snapshot [of ?v cpython "answers None True (WriteFails 1)" ?w "dict_of []"]
      a k d j s
    by (simp add: world_of_def answers_def)
qed

end
